theory Spec2Isabelle
  imports Complex_Main "HOL-Library.AList"
begin

section \<open>An averaged perceptron with lazy totals: the model of perceptron.py\<close>

text \<open>
  The two classes of \<^verbatim>\<open>perceptron.py\<close> are embedded as records with explicit state
  passing: every method takes the object and returns it, updated, beside its outcome.
  A raise is a value of \<open>error\<close>, returned with the state the object has when the
  exception leaves the method, so that what a failing call has already written is part
  of the model.

  Numbers: the numpy vectors hold float64; they are modelled as \<open>real\<close>, which has no
  rounding. The theorems of the last section therefore say which operations the code
  applies, in which order and under which keys, and evaluate it on values that float64
  represents exactly (small integers and halves); none of them rests on an identity of
  the reals that float64 lacks, such as \<open>(w + x) - x = w\<close>. Python integers
  (the update counter, the time stamps, the update counts) are \<open>int\<close>. Label positions
  are \<open>nat\<close>, as the docstring of \<^verbatim>\<open>Perceptron.update\<close> asks (non-negative integers).
  A Python \<^verbatim>\<open>dict\<close> that the code iterates over is an association list in insertion
  order (feature vectors, the feature-to-weights mapping); a \<^verbatim>\<open>dict\<close> that is only
  returned is a map (the scores).
\<close>

datatype error = AssertionError | IndexError | ValueError | KeyError

subsection \<open>FeatureWeights\<close>

record feature_weights =
  weights :: "real list"
  totals :: "real list"
  last_update :: "int list"
  update_count :: int

text \<open>
  \<^verbatim>\<open>FeatureWeights(num_labels)\<close>: three zero vectors and a zero count.
\<close>

definition FeatureWeights_zeros :: "nat \<Rightarrow> feature_weights" where
  "FeatureWeights_zeros num_labels =
     \<lparr>weights = replicate num_labels 0,
      totals = replicate num_labels 0,
      last_update = replicate num_labels 0,
      update_count = 0\<rparr>"

text \<open>
  \<^verbatim>\<open>FeatureWeights(weights=w)\<close>: the object gets the attribute \<^verbatim>\<open>weights\<close> only. The
  record has no absent fields, so the bookkeeping is rendered empty; no method of a
  frozen Perceptron reads it (\<^verbatim>\<open>update\<close> and \<^verbatim>\<open>finalize\<close> assert first, \<^verbatim>\<open>score\<close> tests
  \<^verbatim>\<open>is_frozen\<close> before \<^verbatim>\<open>update_count\<close>).
\<close>

definition FeatureWeights_given :: "real list \<Rightarrow> feature_weights" where
  "FeatureWeights_given ws =
     \<lparr>weights = ws, totals = [], last_update = [], update_count = 0\<rparr>"

text \<open>
  \<^verbatim>\<open>_update_totals(label, update_index)\<close> with one label. Both statements index the
  three vectors at \<^verbatim>\<open>label\<close>; the first one reads all three before it writes, so an
  index out of range raises before anything is written.
\<close>

definition fw_update_totals :: "feature_weights \<Rightarrow> nat \<Rightarrow> int \<Rightarrow> error option \<times> feature_weights" where
  "fw_update_totals w label idx =
     (if label < length (totals w) \<and> label < length (weights w) \<and> label < length (last_update w)
      then (None,
            w\<lparr>totals := (totals w)[label := totals w ! label
                   + weights w ! label * real_of_int (idx - last_update w ! label)],
              last_update := (last_update w)[label := idx]\<rparr>)
      else (Some IndexError, w))"

text \<open>
  \<^verbatim>\<open>_update_totals(labels, update_index)\<close> with a list of labels (numpy's indexing by a
  list): the right-hand side is gathered from the vectors as they are, then scattered,
  so a position listed twice is written twice with the same value.
\<close>

definition fw_update_totals_list :: "feature_weights \<Rightarrow> nat list \<Rightarrow> int \<Rightarrow> error option \<times> feature_weights" where
  "fw_update_totals_list w ls idx =
     (if list_all (\<lambda>i. i < length (totals w) \<and> i < length (weights w) \<and> i < length (last_update w)) ls
      then (None,
            w\<lparr>totals := fold (\<lambda>i ts. ts[i := totals w ! i
                   + weights w ! i * real_of_int (idx - last_update w ! i)]) ls (totals w),
              last_update := fold (\<lambda>i lu. lu[i := idx]) ls (last_update w)\<rparr>)
      else (Some IndexError, w))"

text \<open>
  \<^verbatim>\<open>update(label, value, update_index)\<close>: the count is incremented before the
  indexing that can raise.
\<close>

definition fw_update :: "feature_weights \<Rightarrow> nat \<Rightarrow> real \<Rightarrow> int \<Rightarrow> error option \<times> feature_weights" where
  "fw_update w label val idx =
     (let w1 = w\<lparr>update_count := update_count w + 1\<rparr> in
      case fw_update_totals w1 label idx of
        (Some e, w2) \<Rightarrow> (Some e, w2)
      | (None, w2) \<Rightarrow> (None, w2\<lparr>weights := (weights w2)[label := weights w2 ! label + val]\<rparr>))"

text \<open>
  \<^verbatim>\<open>finalize(update_index, labels, average)\<close> returns the new object and leaves the
  receiver with its totals synchronised. numpy divides by zero without raising (the
  result is nan or inf); HOL's \<open>x / 0\<close> is \<open>0\<close>, so statements about averaged weights
  are made for a positive \<^verbatim>\<open>update_index\<close> only.
\<close>

definition fw_finalize :: "feature_weights \<Rightarrow> int \<Rightarrow> nat list \<Rightarrow> bool \<Rightarrow> (error + feature_weights) \<times> feature_weights" where
  "fw_finalize w idx ls average =
     (case fw_update_totals_list w ls idx of
        (Some e, w') \<Rightarrow> (Inl e, w')
      | (None, w') \<Rightarrow>
          (Inr (FeatureWeights_given
                  (if average then map (\<lambda>i. totals w' ! i / real_of_int idx) ls
                   else map (\<lambda>i. weights w' ! i) ls)),
           w'))"

text \<open>
  \<^verbatim>\<open>ndarray.resize(n, refcheck=False)\<close> on a vector: the first \<open>n\<close> entries are kept and
  the rest, if any, is zero.
\<close>

definition resize_vec :: "'a::zero list \<Rightarrow> nat \<Rightarrow> 'a list" where
  "resize_vec xs n = take n xs @ replicate (n - length xs) 0"

definition fw_resize :: "feature_weights \<Rightarrow> nat \<Rightarrow> feature_weights" where
  "fw_resize w num_labels =
     w\<lparr>weights := resize_vec (weights w) num_labels,
       totals := resize_vec (totals w) num_labels,
       last_update := resize_vec (last_update w) num_labels\<rparr>"

subsection \<open>Perceptron\<close>

text \<open>
  The attributes \<^verbatim>\<open>_min_update\<close>, \<^verbatim>\<open>_update_index\<close> and \<^verbatim>\<open>_true_labels\<close> exist on an
  instance built unfrozen; a frozen one built by the constructor has none of them. The
  record gives them a fixed value there (\<open>0\<close>, \<open>0\<close>, \<open>[]\<close>), which no method reads.
\<close>

record perceptron =
  labels :: "string list"
  init_num_labels :: nat
  pweights :: "(string \<times> feature_weights) list"
  is_frozen :: bool
  label_indices :: "nat list option"
  min_update :: int
  update_index :: int
  true_labels :: "bool list"

definition Perceptron :: "string list \<Rightarrow> int \<Rightarrow> (string \<times> feature_weights) list option \<Rightarrow> nat list option \<Rightarrow> perceptron" where
  "Perceptron ls mu ws li =
     \<lparr>labels = ls,
      init_num_labels = length ls,
      pweights = (case ws of None \<Rightarrow> [] | Some d \<Rightarrow> d),
      is_frozen = (ws \<noteq> None),
      label_indices = li,
      min_update = (if ws = None then mu else 0),
      update_index = 0,
      true_labels = (if ws = None then replicate (length ls) False else [])\<rparr>"

definition num_labels :: "perceptron \<Rightarrow> nat" where
  "num_labels p = length (labels p)"

text \<open>
  \<^verbatim>\<open>_update_num_labels\<close>. Resetting \<^verbatim>\<open>default_factory\<close> changes nothing: the factory
  reads \<^verbatim>\<open>self.num_labels\<close> when it is called.
\<close>

definition update_num_labels :: "perceptron \<Rightarrow> perceptron" where
  "update_num_labels p =
     (if num_labels p > length (true_labels p)
      then p\<lparr>true_labels := true_labels p @ replicate (num_labels p - length (true_labels p)) False,
             pweights := map (\<lambda>(f, w). (f, fw_resize w (num_labels p))) (pweights p)\<rparr>
      else p)"

text \<open>
  The loop of \<^verbatim>\<open>score\<close>. \<^verbatim>\<open>scores += value * weights.weights\<close> needs vectors of one
  length, but for numpy's broadcasting of a vector of length one; any other mismatch
  raises ValueError.
\<close>

fun score_features :: "perceptron \<Rightarrow> (string \<times> real) list \<Rightarrow> real list \<Rightarrow> error + real list" where
  "score_features p [] scores = Inr scores"
| "score_features p ((feature, val) # fs) scores =
     (if val = 0 then score_features p fs scores
      else case map_of (pweights p) feature of
        None \<Rightarrow> score_features p fs scores
      | Some w \<Rightarrow>
          if \<not> is_frozen p \<and> update_count w < min_update p then score_features p fs scores
          else if length (weights w) = length scores
            then score_features p fs (map2 (\<lambda>s x. s + val * x) scores (weights w))
          else if length (weights w) = 1
            then score_features p fs (map (\<lambda>s. s + val * hd (weights w)) scores)
          else Inl ValueError)"

text \<open>\<^verbatim>\<open>dict(pairs)\<close> and a dict comprehension: a later pair overwrites an earlier one.\<close>

definition dict_of :: "('k \<times> 'v) list \<Rightarrow> ('k \<rightharpoonup> 'v)" where
  "dict_of kvs = fold (\<lambda>(k, v) m. m(k \<mapsto> v)) kvs Map.empty"

definition score :: "perceptron \<Rightarrow> (string \<times> real) list \<Rightarrow> (error + (nat \<rightharpoonup> real)) \<times> perceptron" where
  "score p features =
     (let p1 = (if \<not> is_frozen p then update_num_labels p else p) in
      case score_features p1 features (replicate (num_labels p1) 0) of
        Inl e \<Rightarrow> (Inl e, p1)
      | Inr scores \<Rightarrow>
          (case label_indices p1 of
             None \<Rightarrow> (Inr (dict_of (enumerate 0 scores)), p1)
           | Some li \<Rightarrow>
               if length li < length scores then (Inl IndexError, p1)
               else (Inr (dict_of (zip li scores)), p1)))"

text \<open>
  \<^verbatim>\<open>self.weights[feature]\<close> on the defaultdict: the stored FeatureWeights, or a new zero
  one of the current number of labels (which the defaultdict stores at once).
\<close>

definition default_weights :: "perceptron \<Rightarrow> string \<Rightarrow> feature_weights" where
  "default_weights p feature =
     (case map_of (pweights p) feature of
        None \<Rightarrow> FeatureWeights_zeros (num_labels p)
      | Some w \<Rightarrow> w)"

text \<open>
  The body of the loop of \<^verbatim>\<open>update\<close> for one feature with a non-zero value. Both
  updates write to the stored object, so the mapping holds whatever was written when an
  update raises.
\<close>

definition update_feature :: "perceptron \<Rightarrow> string \<Rightarrow> real \<Rightarrow> nat \<Rightarrow> nat \<Rightarrow> real \<Rightarrow> error option \<times> perceptron" where
  "update_feature p feature val pred true learning_rate =
     (case fw_update (default_weights p feature) true (learning_rate * val) (update_index p) of
        (Some e, w1) \<Rightarrow> (Some e, p\<lparr>pweights := AList.update feature w1 (pweights p)\<rparr>)
      | (None, w1) \<Rightarrow>
          (case fw_update w1 pred (- learning_rate * val) (update_index p) of
             (e, w2) \<Rightarrow> (e, p\<lparr>pweights := AList.update feature w2 (pweights p)\<rparr>)))"

fun update_features :: "perceptron \<Rightarrow> (string \<times> real) list \<Rightarrow> nat \<Rightarrow> nat \<Rightarrow> real \<Rightarrow> error option \<times> perceptron" where
  "update_features p [] pred true learning_rate = (None, p)"
| "update_features p ((feature, val) # fs) pred true learning_rate =
     (if val = 0 then update_features p fs pred true learning_rate
      else case update_feature p feature val pred true learning_rate of
             (Some e, p') \<Rightarrow> (Some e, p')
           | (None, p') \<Rightarrow> update_features p' fs pred true learning_rate)"

definition update :: "perceptron \<Rightarrow> (string \<times> real) list \<Rightarrow> nat \<Rightarrow> nat \<Rightarrow> real \<Rightarrow> error option \<times> perceptron" where
  "update p features pred true learning_rate =
     (if is_frozen p then (Some AssertionError, p)
      else
        let p1 = p\<lparr>update_index := update_index p + 1\<rparr>;
            p2 = update_num_labels p1
        in if true < length (true_labels p2)
           then update_features (p2\<lparr>true_labels := (true_labels p2)[true := True]\<rparr>)
                  features pred true learning_rate
           else (Some IndexError, p2))"

text \<open>
  The dict comprehension of \<^verbatim>\<open>finalize\<close>: the features are visited in order, each one
  that passes the threshold is finalised (which synchronises its totals in place), and
  the first one that raises ends the loop. The result is the new mapping, or the error,
  beside the receiver's mapping as the loop left it.
\<close>

fun finalize_weights :: "(string \<times> feature_weights) list \<Rightarrow> int \<Rightarrow> int \<Rightarrow> nat list \<Rightarrow> bool \<Rightarrow>
    (error + (string \<times> feature_weights) list) \<times> (string \<times> feature_weights) list" where
  "finalize_weights [] mu idx ls average = (Inr [], [])"
| "finalize_weights ((f, w) # ws) mu idx ls average =
     (if update_count w \<ge> mu
      then case fw_finalize w idx ls average of
             (Inl e, w') \<Rightarrow> (Inl e, (f, w') # ws)
           | (Inr fw, w') \<Rightarrow>
               (case finalize_weights ws mu idx ls average of
                  (Inl e, ws') \<Rightarrow> (Inl e, (f, w') # ws')
                | (Inr out, ws') \<Rightarrow> (Inr ((f, fw) # out), (f, w') # ws'))
      else case finalize_weights ws mu idx ls average of
             (r, ws') \<Rightarrow> (r, (f, w) # ws'))"

text \<open>
  \<^verbatim>\<open>finalize(average)\<close>. The list of kept (position, label) pairs is unzipped into two
  tuples by \<^verbatim>\<open>zip(*...)\<close>; with no kept pair there is nothing to unpack and the
  assignment raises ValueError. The printed report is not modelled.
\<close>

definition kept_labels :: "perceptron \<Rightarrow> (nat \<times> string) list" where
  "kept_labels p =
     map (\<lambda>(i, (t, l)). (i, l))
       (filter (\<lambda>(i, (t, l)). t) (enumerate 0 (zip (true_labels p) (labels p))))"

definition finalize :: "perceptron \<Rightarrow> bool \<Rightarrow> (error + perceptron) \<times> perceptron" where
  "finalize p average =
     (if is_frozen p then (Inl AssertionError, p)
      else
        let p1 = update_num_labels p;
            kept = kept_labels p1
        in if kept = [] then (Inl ValueError, p1)
           else
             let lis = map fst kept;
                 lbls = map snd kept
             in case finalize_weights (pweights p1) (min_update p1) (update_index p1) lis average of
                  (Inl e, ws') \<Rightarrow> (Inl e, p1\<lparr>pweights := ws'\<rparr>)
                | (Inr out, ws') \<Rightarrow>
                    (Inr (Perceptron lbls 1 (Some out) (Some lis)), p1\<lparr>pweights := ws'\<rparr>))"

text \<open>
  Persistence. The serialiser is a parameter of the source; it is taken to return on
  \<^verbatim>\<open>load\<close> the dictionary it was given on \<^verbatim>\<open>save\<close>. The dictionary has three keys
  always and three more when the instance is unfrozen; \<^verbatim>\<open>load\<close> raises KeyError when
  it needs one that is missing.
\<close>

record saved =
  s_labels :: "string list"
  s_weights :: "(string \<times> feature_weights) list"
  s_is_frozen :: bool
  s_min_update :: "int option"
  s_update_index :: "int option"
  s_true_labels :: "bool list option"

definition save :: "perceptron \<Rightarrow> saved" where
  "save p =
     \<lparr>s_labels = labels p,
      s_weights = pweights p,
      s_is_frozen = is_frozen p,
      s_min_update = (if \<not> is_frozen p then Some (min_update p) else None),
      s_update_index = (if \<not> is_frozen p then Some (update_index p) else None),
      s_true_labels = (if \<not> is_frozen p then Some (true_labels p) else None)\<rparr>"

definition load :: "perceptron \<Rightarrow> saved \<Rightarrow> error option \<times> perceptron" where
  "load p d =
     (let p1 = p\<lparr>labels := s_labels d, pweights := s_weights d, is_frozen := s_is_frozen d\<rparr> in
      if \<not> is_frozen p1 then
        (case s_min_update d of
           None \<Rightarrow> (Some KeyError, p1)
         | Some mu \<Rightarrow>
             (case s_update_index d of
                None \<Rightarrow> (Some KeyError, p1\<lparr>min_update := mu\<rparr>)
              | Some ui \<Rightarrow>
                  (case s_true_labels d of
                     None \<Rightarrow> (Some KeyError, p1\<lparr>min_update := mu, update_index := ui\<rparr>)
                   | Some tls \<Rightarrow>
                       (None, p1\<lparr>min_update := mu, update_index := ui, true_labels := tls\<rparr>))))
      else (None, p1))"

subsection \<open>Runs of calls\<close>

text \<open>
  What a caller can do with an instance: call \<^verbatim>\<open>update\<close>, \<^verbatim>\<open>score\<close> or \<^verbatim>\<open>finalize\<close>, or
  append a label to the list the instance holds. A step is the state the instance is
  left in, whether the call returned or raised (a caller may catch the exception and go
  on). \<^verbatim>\<open>load\<close> is left out of the runs: it replaces the state by whatever the file
  holds.
\<close>

datatype call =
  Update "(string \<times> real) list" nat nat real
| Score "(string \<times> real) list"
| Finalize bool
| Append string

fun step :: "perceptron \<Rightarrow> call \<Rightarrow> perceptron" where
  "step p (Update features pred true learning_rate) = snd (update p features pred true learning_rate)"
| "step p (Score features) = snd (score p features)"
| "step p (Finalize average) = snd (finalize p average)"
| "step p (Append l) = p\<lparr>labels := labels p @ [l]\<rparr>"

definition run :: "perceptron \<Rightarrow> call list \<Rightarrow> perceptron" where
  "run p cs = foldl step p cs"

text \<open>
  The shape every unfrozen instance of a run has: the flags are no longer than the label
  list, and the three vectors of every feature are as long as the flags.
\<close>

definition fw_sized :: "nat \<Rightarrow> feature_weights \<Rightarrow> bool" where
  "fw_sized n w \<longleftrightarrow> length (weights w) = n \<and> length (totals w) = n \<and> length (last_update w) = n"

definition trainable :: "perceptron \<Rightarrow> bool" where
  "trainable p \<longleftrightarrow>
     \<not> is_frozen p \<and> length (true_labels p) \<le> num_labels p \<and>
     list_all (\<lambda>(f, w). fw_sized (length (true_labels p)) w) (pweights p)"

subsection \<open>Auxiliary definitions for the statements\<close>

text \<open>
  The vector a finalised feature gets, written from the feature as it is before the call
  of \<^verbatim>\<open>FeatureWeights.finalize\<close> (lemma \<open>fw_finalize_ok\<close> relates it to the code).
\<close>

definition finalized_vector :: "feature_weights \<Rightarrow> int \<Rightarrow> nat list \<Rightarrow> bool \<Rightarrow> real list" where
  "finalized_vector w idx ls average =
     (if average
      then map (\<lambda>i. (totals w ! i + weights w ! i * real_of_int (idx - last_update w ! i))
                      / real_of_int idx) ls
      else map (\<lambda>i. weights w ! i) ls)"

section \<open>Basic facts\<close>

subsection \<open>Which errors a call can raise\<close>

lemma fw_update_error: "fw_update w l v i = (Some e, w') \<Longrightarrow> e = IndexError"
  by (auto simp: fw_update_def Let_def fw_update_totals_def split: if_splits prod.splits option.splits)

lemma update_feature_error:
  "update_feature p f v pred true lr = (Some e, p') \<Longrightarrow> e = IndexError"
  by (auto simp: update_feature_def split: prod.splits option.splits dest: fw_update_error)

lemma update_features_error:
  "update_features p fs pred true lr = (Some e, p') \<Longrightarrow> e = IndexError"
proof (induction fs arbitrary: p)
  case Nil
  then show ?case by simp
next
  case (Cons a fs)
  then show ?case
    by (cases a) (auto split: if_splits prod.splits option.splits dest: update_feature_error)
qed

lemma fw_finalize_error: "fw_finalize w i ls a = (Inl e, w') \<Longrightarrow> e = IndexError"
  by (auto simp: fw_finalize_def fw_update_totals_list_def split: if_splits prod.splits option.splits)

lemma finalize_weights_error:
  "finalize_weights ws mu i ls a = (Inl e, ws') \<Longrightarrow> e = IndexError"
proof (induction ws mu i ls a arbitrary: ws' rule: finalize_weights.induct)
  case (1 mu idx ls average)
  then show ?case by simp
next
  case (2 f w ws mu idx ls average)
  then show ?case
    by (auto split: if_splits prod.splits sum.splits dest: fw_finalize_error)
qed

lemma update_error_unfrozen:
  "\<not> is_frozen p \<Longrightarrow> fst (update p fs pred true lr) = Some e \<Longrightarrow> e = IndexError"
  by (cases "update p fs pred true lr")
     (auto simp: update_def Let_def split: if_splits dest: update_features_error)

lemma finalize_error_unfrozen:
  "\<not> is_frozen p \<Longrightarrow> fst (finalize p a) = Inl e \<Longrightarrow> e = IndexError \<or> e = ValueError"
  by (auto simp: finalize_def Let_def split: if_splits prod.splits sum.splits
      dest: finalize_weights_error)

subsection \<open>The kept labels\<close>

lemma enumerate_conv_nth: "enumerate 0 xs = map (\<lambda>i. (i, xs ! i)) [0..<length xs]"
  by (rule nth_equalityI) (simp_all add: nth_enumerate_eq)

lemma kept_labels_conv:
  "kept_labels p =
     map (\<lambda>i. (i, labels p ! i))
       (filter (\<lambda>i. true_labels p ! i) [0..<min (length (true_labels p)) (length (labels p))])"
proof -
  let ?n = "min (length (true_labels p)) (length (labels p))"
  have "kept_labels p =
      map (\<lambda>(i, (t, l)). (i, l)) (map (\<lambda>i. (i, zip (true_labels p) (labels p) ! i))
        (filter (\<lambda>i. fst (zip (true_labels p) (labels p) ! i)) [0..<?n]))"
    by (simp add: kept_labels_def enumerate_conv_nth filter_map comp_def split_def)
  also have "filter (\<lambda>i. fst (zip (true_labels p) (labels p) ! i)) [0..<?n]
      = filter (\<lambda>i. true_labels p ! i) [0..<?n]"
    by (rule filter_cong) simp_all
  also have "map (\<lambda>(i, (t, l)). (i, l)) (map (\<lambda>i. (i, zip (true_labels p) (labels p) ! i))
        (filter (\<lambda>i. true_labels p ! i) [0..<?n]))
      = map (\<lambda>i. (i, labels p ! i)) (filter (\<lambda>i. true_labels p ! i) [0..<?n])"
    by (simp add: comp_def)
  finally show ?thesis .
qed

lemma kept_labels_empty: "True \<notin> set (true_labels p) \<Longrightarrow> kept_labels p = []"
  by (auto simp: kept_labels_conv filter_empty_conv in_set_conv_nth)

lemma true_labels_grow:
  "set (true_labels (update_num_labels p)) \<subseteq> set (true_labels p) \<union> {False}"
  by (auto simp: update_num_labels_def)

subsection \<open>Sizes of the vectors\<close>

lemma length_fold_list_update [simp]:
  "length (fold (\<lambda>i ts. ts[i := g i]) ls xs) = length xs"
  by (induction ls arbitrary: xs) simp_all

lemma fw_sized_zeros: "fw_sized n (FeatureWeights_zeros n)"
  by (simp add: fw_sized_def FeatureWeights_zeros_def)

lemma fw_update_ok:
  assumes "fw_sized n w" and "l < n"
  shows "fw_update w l v i =
     (None, w\<lparr>update_count := update_count w + 1,
              totals := (totals w)[l := totals w ! l + weights w ! l * real_of_int (i - last_update w ! l)],
              last_update := (last_update w)[l := i],
              weights := (weights w)[l := weights w ! l + v]\<rparr>)"
  using assms by (simp add: fw_update_def fw_update_totals_def fw_sized_def)

lemma fw_update_sized:
  "fw_sized n w \<Longrightarrow> fw_sized n (snd (fw_update w l v i))"
  by (auto simp: fw_update_def fw_update_totals_def fw_sized_def Let_def)

lemma fw_resize_sized:
  "fw_sized n (fw_resize w n)"
  by (auto simp: fw_resize_def resize_vec_def fw_sized_def)

lemma resize_vec_grow: "length xs \<le> n \<Longrightarrow> resize_vec xs n = xs @ replicate (n - length xs) 0"
  by (simp add: resize_vec_def)

lemma fw_resize_same: "fw_sized n w \<Longrightarrow> fw_resize w n = w"
  by (simp add: fw_resize_def resize_vec_def fw_sized_def)

lemma fw_finalize_sized:
  "fw_sized n w \<Longrightarrow> fw_sized n (snd (fw_finalize w i ls a))"
  by (auto simp: fw_finalize_def fw_update_totals_list_def fw_sized_def)

lemma update_num_labels_trainable:
  assumes "trainable p"
  shows "trainable (update_num_labels p)"
    and "length (true_labels (update_num_labels p)) = num_labels p"
  using assms
  by (auto simp: trainable_def update_num_labels_def num_labels_def list_all_iff fw_resize_sized)

lemma update_num_labels_fields:
  "labels (update_num_labels p) = labels p"
  "is_frozen (update_num_labels p) = is_frozen p"
  "min_update (update_num_labels p) = min_update p"
  "update_index (update_num_labels p) = update_index p"
  "label_indices (update_num_labels p) = label_indices p"
  "num_labels (update_num_labels p) = num_labels p"
  by (simp_all add: update_num_labels_def num_labels_def)

lemma update_feature_fields:
  "update_feature p f v pred true lr = (r, p') \<Longrightarrow> p' = p\<lparr>pweights := pweights p'\<rparr>"
  by (auto simp: update_feature_def split: prod.splits option.splits)

lemma update_features_fields:
  "update_features p fs pred true lr = (r, p') \<Longrightarrow> p' = p\<lparr>pweights := pweights p'\<rparr>"
proof (induction fs arbitrary: p)
  case Nil
  then show ?case by auto
next
  case (Cons a fs)
  obtain f v where a: "a = (f, v)" by (cases a)
  show ?case
  proof (cases "v = 0")
    case True
    with Cons a show ?thesis by simp
  next
    case False
    obtain e1 p1 where u: "update_feature p f v pred true lr = (e1, p1)"
      by (cases "update_feature p f v pred true lr")
    from update_feature_fields[OF u] have p1: "p1 = p\<lparr>pweights := pweights p1\<rparr>" .
    show ?thesis
    proof (cases e1)
      case None
      with Cons.prems a False u have "update_features p1 fs pred true lr = (r, p')" by simp
      from Cons.IH[OF this] have "p' = p1\<lparr>pweights := pweights p'\<rparr>" .
      with p1 show ?thesis by (metis perceptron.update_convs(3) perceptron.surjective perceptron.select_convs)
    next
      case (Some e)
      with Cons.prems a False u have "p' = p1" by simp
      with p1 show ?thesis by simp
    qed
  qed
qed

subsection \<open>The loop of update\<close>

lemma default_weights_sized:
  "trainable p \<Longrightarrow> length (true_labels p) = num_labels p \<Longrightarrow> fw_sized (num_labels p) (default_weights p f)"
  by (auto simp: default_weights_def trainable_def list_all_iff fw_sized_zeros
      split: option.splits dest!: map_of_SomeD)

lemma trainable_store:
  "trainable p \<Longrightarrow> fw_sized (length (true_labels p)) w \<Longrightarrow>
     trainable (p\<lparr>pweights := AList.update f w (pweights p)\<rparr>)"
proof -
  have "set (AList.update f w ws) \<subseteq> insert (f, w) (set ws)" for ws :: "(string \<times> feature_weights) list"
    by (induction ws) auto
  then show "trainable p \<Longrightarrow> fw_sized (length (true_labels p)) w \<Longrightarrow>
     trainable (p\<lparr>pweights := AList.update f w (pweights p)\<rparr>)"
    by (fastforce simp: trainable_def list_all_iff num_labels_def)
qed

lemma update_feature_ok:
  assumes "trainable p" "length (true_labels p) = num_labels p" "pred < num_labels p" "true < num_labels p"
  shows "update_feature p f v pred true lr =
      (None, p\<lparr>pweights := AList.update f
          (snd (fw_update (snd (fw_update (default_weights p f) true (lr * v) (update_index p)))
                 pred (- lr * v) (update_index p))) (pweights p)\<rparr>)"
proof -
  let ?n = "num_labels p"
  have s0: "fw_sized ?n (default_weights p f)" using assms(1,2) by (rule default_weights_sized)
  from fw_update_ok[OF s0 assms(4)]
  have u1: "fst (fw_update (default_weights p f) true (lr * v) (update_index p)) = None" by simp
  have s1: "fw_sized ?n (snd (fw_update (default_weights p f) true (lr * v) (update_index p)))"
    using s0 by (rule fw_update_sized)
  from fw_update_ok[OF s1 assms(3)]
  have u2: "fst (fw_update (snd (fw_update (default_weights p f) true (lr * v) (update_index p)))
                 pred (- lr * v) (update_index p)) = None" by simp
  from u1 u2 show ?thesis
    by (auto simp: update_feature_def split: prod.splits option.splits)
qed

lemma update_features_ok:
  assumes "trainable p" "length (true_labels p) = num_labels p" "pred < num_labels p"
    "true < num_labels p" "distinct (map fst fs)"
  shows "fst (update_features p fs pred true lr) = None \<and>
     trainable (snd (update_features p fs pred true lr)) \<and>
     (\<forall>f. map_of (pweights (snd (update_features p fs pred true lr))) f =
       (case map_of fs f of
          None \<Rightarrow> map_of (pweights p) f
        | Some v \<Rightarrow>
            if v = 0 then map_of (pweights p) f
            else Some (snd (fw_update (snd (fw_update (default_weights p f) true (lr * v) (update_index p)))
                 pred (- lr * v) (update_index p)))))"
  using assms
proof (induction fs arbitrary: p)
  case Nil
  then show ?case by simp
next
  case (Cons a fs)
  obtain g v where a: "a = (g, v)" by (cases a)
  from Cons.prems(5) a have d: "distinct (map fst fs)" and g: "map_of fs g = None"
    by (auto simp: map_of_eq_None_iff)
  show ?case
  proof (cases "v = 0")
    case True
    from Cons.IH[OF Cons.prems(1-4) d] True a g show ?thesis
      by (auto split: option.splits)
  next
    case False
    define w2 where "w2 = snd (fw_update (snd (fw_update (default_weights p g) true (lr * v) (update_index p)))
                 pred (- lr * v) (update_index p))"
    let ?p1 = "p\<lparr>pweights := AList.update g w2 (pweights p)\<rparr>"
    have u: "update_feature p g v pred true lr = (None, ?p1)"
      unfolding w2_def using Cons.prems(1-4) by (rule update_feature_ok)
    have s2: "fw_sized (length (true_labels p)) w2"
      unfolding w2_def using default_weights_sized[OF Cons.prems(1,2)] Cons.prems(2)
      by (simp add: fw_update_sized)
    have t1: "trainable ?p1" using Cons.prems(1) s2 by (rule trainable_store)
    have n1: "num_labels ?p1 = num_labels p" "length (true_labels ?p1) = num_labels ?p1"
      "update_index ?p1 = update_index p"
      using Cons.prems(2) by (simp_all add: num_labels_def)
    have ih: "fst (update_features ?p1 fs pred true lr) = None \<and>
     trainable (snd (update_features ?p1 fs pred true lr)) \<and>
     (\<forall>f. map_of (pweights (snd (update_features ?p1 fs pred true lr))) f =
       (case map_of fs f of
          None \<Rightarrow> map_of (pweights ?p1) f
        | Some v \<Rightarrow>
            if v = 0 then map_of (pweights ?p1) f
            else Some (snd (fw_update (snd (fw_update (default_weights ?p1 f) true (lr * v) (update_index ?p1)))
                 pred (- lr * v) (update_index ?p1)))))"
      using Cons.IH[OF t1 n1(2) _ _ d] Cons.prems(3,4) n1(1) by simp
    have dw: "default_weights ?p1 f = default_weights p f" if "f \<noteq> g" for f
      using that by (simp add: default_weights_def update_conv' num_labels_def split: option.splits)
    have e: "update_features p (a # fs) pred true lr = update_features ?p1 fs pred true lr"
      using a False u by simp
    have look: "map_of (pweights (snd (update_features ?p1 fs pred true lr))) f =
       (case map_of (a # fs) f of
          None \<Rightarrow> map_of (pweights p) f
        | Some v \<Rightarrow>
            if v = 0 then map_of (pweights p) f
            else Some (snd (fw_update (snd (fw_update (default_weights p f) true (lr * v) (update_index p)))
                 pred (- lr * v) (update_index p))))" for f
    proof (cases "f = g")
      case True
      with ih g a False show ?thesis by (simp add: update_conv' w2_def)
    next
      case neq: False
      from ih have "map_of (pweights (snd (update_features ?p1 fs pred true lr))) f =
       (case map_of fs f of
          None \<Rightarrow> map_of (pweights ?p1) f
        | Some v \<Rightarrow>
            if v = 0 then map_of (pweights ?p1) f
            else Some (snd (fw_update (snd (fw_update (default_weights ?p1 f) true (lr * v) (update_index ?p1)))
                 pred (- lr * v) (update_index ?p1))))" by blast
      also have "\<dots> = (case map_of fs f of
          None \<Rightarrow> map_of (pweights p) f
        | Some v \<Rightarrow>
            if v = 0 then map_of (pweights p) f
            else Some (snd (fw_update (snd (fw_update (default_weights p f) true (lr * v) (update_index p)))
                 pred (- lr * v) (update_index p))))"
        using neq by (simp add: update_conv' dw[OF neq] split: option.splits)
      finally show ?thesis using neq a by simp
    qed
    from ih look show ?thesis unfolding e by blast
  qed
qed

subsection \<open>The effect of update\<close>

lemma update_num_labels_update_index:
  "update_num_labels (p\<lparr>update_index := x\<rparr>) = (update_num_labels p)\<lparr>update_index := x\<rparr>"
  by (simp add: update_num_labels_def num_labels_def)

lemma trainable_mark:
  "trainable p \<Longrightarrow> trainable (p\<lparr>true_labels := (true_labels p)[t := True]\<rparr>)"
  by (simp add: trainable_def num_labels_def)

lemma trainable_update_index:
  "trainable (p\<lparr>update_index := x\<rparr>) = trainable p"
  by (simp add: trainable_def num_labels_def)

text \<open>The state in which the loop of update starts.\<close>

lemma update_unfold:
  assumes "trainable p" "true < num_labels p"
  shows "update p fs pred true lr =
     update_features ((update_num_labels p)\<lparr>update_index := update_index p + 1,
        true_labels := (true_labels (update_num_labels p))[true := True]\<rparr>) fs pred true lr"
  using assms update_num_labels_trainable(2)[OF assms(1)]
  by (simp add: update_def Let_def update_num_labels_update_index trainable_def)

lemma update_general:
  assumes t: "trainable p" and pr: "pred < num_labels p" and tr: "true < num_labels p"
    and d: "distinct (map fst features)"
  shows "\<exists>p'. update p features pred true lr = (None, p') \<and>
      update_index p' = update_index p + 1 \<and>
      (\<forall>f v. (f, v) \<in> set features \<and> v \<noteq> 0 \<longrightarrow>
         (\<exists>w1 w2.
            fw_update (default_weights (update_num_labels p) f) true (lr * v) (update_index p + 1) = (None, w1) \<and>
            fw_update w1 pred (- lr * v) (update_index p + 1) = (None, w2) \<and>
            map_of (pweights p') f = Some w2 \<and>
            weights w1 = (weights (default_weights (update_num_labels p) f))
                           [true := weights (default_weights (update_num_labels p) f) ! true + lr * v] \<and>
            weights w2 = (weights w1)[pred := weights w1 ! pred - lr * v] \<and>
            update_count w2 = update_count (default_weights (update_num_labels p) f) + 2)) \<and>
      (\<forall>f. (\<forall>v. (f, v) \<in> set features \<longrightarrow> v = 0) \<longrightarrow>
         map_of (pweights p') f = map_of (pweights (update_num_labels p)) f)"
proof -
  let ?q = "update_num_labels p"
  let ?i = "update_index p + 1"
  define p3 where "p3 = ?q\<lparr>update_index := ?i, true_labels := (true_labels ?q)[true := True]\<rparr>"
  have q: "trainable ?q" "length (true_labels ?q) = num_labels p"
    using t by (rule update_num_labels_trainable)+
  have t3: "trainable p3"
    unfolding p3_def using trainable_mark[OF q(1), of true]
    by (simp add: trainable_def num_labels_def)
  have n3: "num_labels p3 = num_labels p" "length (true_labels p3) = num_labels p3"
    "update_index p3 = ?i" "pweights p3 = pweights ?q"
    using q(2) by (simp_all add: p3_def num_labels_def update_num_labels_fields)
  have dw: "default_weights p3 f = default_weights ?q f" for f
    by (simp add: default_weights_def n3 update_num_labels_fields split: option.splits)
  have u: "update p features pred true lr = update_features p3 features pred true lr"
    unfolding p3_def using t tr by (rule update_unfold)
  define p' where "p' = snd (update_features p3 features pred true lr)"
  have ok: "fst (update_features p3 features pred true lr) = None \<and>
     trainable (snd (update_features p3 features pred true lr)) \<and>
     (\<forall>f. map_of (pweights (snd (update_features p3 features pred true lr))) f =
       (case map_of features f of
          None \<Rightarrow> map_of (pweights p3) f
        | Some v \<Rightarrow>
            if v = 0 then map_of (pweights p3) f
            else Some (snd (fw_update (snd (fw_update (default_weights p3 f) true (lr * v) (update_index p3)))
                 pred (- lr * v) (update_index p3)))))"
    using t3 n3(2) _ _ d by (rule update_features_ok) (simp_all add: n3 pr tr)
  then have r: "update p features pred true lr = (None, p')"
    unfolding u p'_def by (metis prod.collapse)
  from ok have look: "map_of (pweights p') f =
       (case map_of features f of
          None \<Rightarrow> map_of (pweights ?q) f
        | Some v \<Rightarrow>
            if v = 0 then map_of (pweights ?q) f
            else Some (snd (fw_update (snd (fw_update (default_weights ?q f) true (lr * v) ?i))
                 pred (- lr * v) ?i)))" for f
    unfolding p'_def[symmetric] n3 dw by blast
  have "p' = p3\<lparr>pweights := pweights p'\<rparr>"
    using r[unfolded u] by (rule update_features_fields)
  then have "update_index p' = update_index p3"
    by (metis perceptron.select_convs(7) perceptron.surjective perceptron.update_convs(3))
  then have idx: "update_index p' = ?i" by (simp add: n3)
  have touched: "\<exists>w1 w2.
            fw_update (default_weights ?q f) true (lr * v) ?i = (None, w1) \<and>
            fw_update w1 pred (- lr * v) ?i = (None, w2) \<and>
            map_of (pweights p') f = Some w2 \<and>
            weights w1 = (weights (default_weights ?q f))
                           [true := weights (default_weights ?q f) ! true + lr * v] \<and>
            weights w2 = (weights w1)[pred := weights w1 ! pred - lr * v] \<and>
            update_count w2 = update_count (default_weights ?q f) + 2"
    if fv: "(f, v) \<in> set features" "v \<noteq> 0" for f v
  proof -
    let ?w0 = "default_weights ?q f"
    have m: "map_of features f = Some v" using d fv(1) by simp
    have s0: "fw_sized (num_labels p) ?w0"
      using default_weights_sized[OF q(1)] q(2) by (simp add: update_num_labels_fields)
    note u1 = fw_update_ok[OF s0 tr, of "lr * v" ?i]
    define w1 where "w1 = snd (fw_update ?w0 true (lr * v) ?i)"
    have s1: "fw_sized (num_labels p) w1" unfolding w1_def using s0 by (rule fw_update_sized)
    note u2 = fw_update_ok[OF s1 pr, of "- lr * v" ?i]
    define w2 where "w2 = snd (fw_update w1 pred (- lr * v) ?i)"
    have a: "fw_update ?w0 true (lr * v) ?i = (None, w1)" unfolding w1_def using u1 by simp
    have b: "fw_update w1 pred (- lr * v) ?i = (None, w2)" unfolding w2_def using u2 by simp
    have c: "map_of (pweights p') f = Some w2"
      using look[of f] m fv(2) by (simp add: w2_def w1_def)
    have e: "weights w1 = (weights ?w0)[true := weights ?w0 ! true + lr * v]"
      unfolding w1_def u1 by simp
    have g: "weights w2 = (weights w1)[pred := weights w1 ! pred - lr * v]"
      unfolding w2_def u2 by simp
    have h: "update_count w2 = update_count ?w0 + 2"
      unfolding w2_def u2 by (simp add: w1_def u1)
    from a b c e g h show ?thesis by blast
  qed
  have untouched: "map_of (pweights p') f = map_of (pweights ?q) f"
    if "\<forall>v. (f, v) \<in> set features \<longrightarrow> v = 0" for f
    using look[of f] that by (auto split: option.splits dest: map_of_SomeD)
  from r idx touched untouched show ?thesis by blast
qed

subsection \<open>Every state of a run is trainable\<close>

lemma fw_resize_grow:
  "fw_sized m w \<Longrightarrow> m \<le> n \<Longrightarrow>
     fw_resize w n = w\<lparr>weights := weights w @ replicate (n - m) 0,
                        totals := totals w @ replicate (n - m) 0,
                        last_update := last_update w @ replicate (n - m) 0\<rparr>"
  by (simp add: fw_resize_def resize_vec_def fw_sized_def)

lemma update_num_labels_pweights:
  assumes "trainable p"
  shows "pweights (update_num_labels p) =
     map (\<lambda>(f, w). (f, fw_resize w (num_labels p))) (pweights p)"
proof (cases "num_labels p > length (true_labels p)")
  case True
  then show ?thesis by (simp add: update_num_labels_def)
next
  case False
  with assms have n: "length (true_labels p) = num_labels p"
    and s: "\<forall>(f, w) \<in> set (pweights p). fw_sized (num_labels p) w"
    by (auto simp: trainable_def list_all_iff)
  have "map (\<lambda>(f, w). (f, fw_resize w (num_labels p))) (pweights p) = map (\<lambda>x. x) (pweights p)"
    by (rule map_cong) (use s in \<open>auto simp: fw_resize_same\<close>)
  with False show ?thesis by (simp add: update_num_labels_def)
qed

lemma finalize_weights_sized:
  "list_all (\<lambda>(f, w). fw_sized n w) ws \<Longrightarrow>
     list_all (\<lambda>(f, w). fw_sized n w) (snd (finalize_weights ws mu i ls a))"
proof (induction ws)
  case Nil
  then show ?case by simp
next
  case (Cons x ws)
  obtain f w where x: "x = (f, w)" by (cases x)
  from Cons x have w: "fw_sized n w" and ws: "list_all (\<lambda>(f, w). fw_sized n w) ws"
    and ih: "list_all (\<lambda>(f, w). fw_sized n w) (snd (finalize_weights ws mu i ls a))"
    by simp_all
  from fw_finalize_sized[OF w, of i ls a] ih w ws show ?case
    unfolding x by (auto simp: list_all_iff split: prod.splits sum.splits)
qed

lemma update_feature_trainable:
  assumes "trainable p" "length (true_labels p) = num_labels p"
  shows "trainable (snd (update_feature p f v pred true lr))"
proof -
  have s0: "fw_sized (length (true_labels p)) (default_weights p f)"
    using default_weights_sized[OF assms] assms(2) by simp
  then have s1: "fw_sized (length (true_labels p)) (snd (fw_update (default_weights p f) true x i))" for x i
    by (rule fw_update_sized)
  then have s2: "fw_sized (length (true_labels p))
       (snd (fw_update (snd (fw_update (default_weights p f) true x i)) pred y j))" for x i y j
    by (rule fw_update_sized)
  show ?thesis
  proof (cases "fw_update (default_weights p f) true (lr * v) (update_index p)")
    case (Pair e1 w1)
    with s1[of "lr * v" "update_index p"] have w1: "fw_sized (length (true_labels p)) w1" by simp
    show ?thesis
    proof (cases "fw_update w1 pred (- lr * v) (update_index p)")
      case p2: (Pair e2 w2)
      with fw_update_sized[OF w1, of pred "- lr * v" "update_index p"]
      have w2: "fw_sized (length (true_labels p)) w2" by simp
      from Pair p2 trainable_store[OF assms(1) w1] trainable_store[OF assms(1) w2]
      show ?thesis by (auto simp: update_feature_def split: option.splits)
    qed
  qed
qed

lemma update_features_trainable:
  "trainable p \<Longrightarrow> length (true_labels p) = num_labels p \<Longrightarrow>
     trainable (snd (update_features p fs pred true lr))"
proof (induction fs arbitrary: p)
  case Nil
  then show ?case by simp
next
  case (Cons a fs)
  obtain f v where a: "a = (f, v)" by (cases a)
  obtain e1 p1 where u: "update_feature p f v pred true lr = (e1, p1)"
    by (cases "update_feature p f v pred true lr")
  from update_feature_trainable[OF Cons.prems, of f v pred true lr] u
  have t1: "trainable p1" by simp
  from update_feature_fields[OF u] have "p1 = p\<lparr>pweights := pweights p1\<rparr>" .
  then have "true_labels p1 = true_labels p" "labels p1 = labels p"
    by (metis perceptron.select_convs perceptron.surjective perceptron.update_convs(3))+
  with Cons.prems(2) have n1: "length (true_labels p1) = num_labels p1"
    by (simp add: num_labels_def)
  from Cons.IH[OF t1 n1] Cons.IH[OF Cons.prems] t1 u a show ?case
    by (auto split: option.splits)
qed

lemma trainable_update: "trainable p \<Longrightarrow> trainable (snd (update p fs pred true lr))"
proof -
  assume t: "trainable p"
  let ?p1 = "p\<lparr>update_index := update_index p + 1\<rparr>"
  let ?q = "update_num_labels ?p1"
  have t1: "trainable ?p1" using t by (simp add: trainable_update_index)
  have q: "trainable ?q" "length (true_labels ?q) = num_labels ?p1"
    using t1 by (rule update_num_labels_trainable)+
  let ?p3 = "?q\<lparr>true_labels := (true_labels ?q)[true := True]\<rparr>"
  have t3: "trainable ?p3" using q(1) by (rule trainable_mark)
  have n3: "length (true_labels ?p3) = num_labels ?p3"
    using q(2) by (simp add: num_labels_def update_num_labels_fields)
  from update_features_trainable[OF t3 n3, of fs pred true lr] q(1) t
  show ?thesis by (simp add: update_def Let_def trainable_def[of p])
qed

lemma score_state: "snd (score p fs) = (if \<not> is_frozen p then update_num_labels p else p)"
  by (simp add: score_def Let_def split: sum.splits option.splits)

lemma trainable_score: "trainable p \<Longrightarrow> trainable (snd (score p fs))"
  by (simp add: score_state update_num_labels_trainable)

lemma trainable_finalize: "trainable p \<Longrightarrow> trainable (snd (finalize p a))"
proof -
  assume t: "trainable p"
  let ?q = "update_num_labels p"
  have q: "trainable ?q" using t by (rule update_num_labels_trainable)
  then have "list_all (\<lambda>(f, w). fw_sized (length (true_labels ?q)) w)
      (snd (finalize_weights (pweights ?q) (min_update ?q) (update_index ?q) (map fst (kept_labels ?q)) a))"
    by (simp add: trainable_def finalize_weights_sized)
  then have "trainable (?q\<lparr>pweights := snd (finalize_weights (pweights ?q) (min_update ?q) (update_index ?q) (map fst (kept_labels ?q)) a)\<rparr>)"
    using q by (simp add: trainable_def num_labels_def)
  with q t show ?thesis
    by (auto simp: finalize_def Let_def trainable_def[of p] split: prod.splits sum.splits)
qed

lemma trainable_append: "trainable p \<Longrightarrow> trainable (p\<lparr>labels := labels p @ [l]\<rparr>)"
  by (simp add: trainable_def num_labels_def)

lemma trainable_step: "trainable p \<Longrightarrow> trainable (step p c)"
  by (cases c) (simp_all add: trainable_update trainable_score trainable_finalize trainable_append)

lemma trainable_init: "trainable (Perceptron ls mu None None)"
  by (simp add: trainable_def Perceptron_def num_labels_def)

lemma trainable_run_from: "trainable p \<Longrightarrow> trainable (run p cs)"
  unfolding run_def by (induction cs arbitrary: p) (simp_all add: trainable_step)

lemma trainable_run: "trainable (run (Perceptron ls mu None None) cs)"
  using trainable_init by (rule trainable_run_from)

subsection \<open>Growing the label list\<close>

lemma grow_after_append:
  assumes t: "trainable p"
  shows "pweights (update_num_labels (p\<lparr>labels := labels p @ [l]\<rparr>)) =
      map (\<lambda>(f, w). (f, w\<lparr>weights := weights w @ replicate (Suc (num_labels p) - length (true_labels p)) 0,
                              totals := totals w @ replicate (Suc (num_labels p) - length (true_labels p)) 0,
                              last_update := last_update w @ replicate (Suc (num_labels p) - length (true_labels p)) 0\<rparr>))
        (pweights p)"
proof -
  let ?p = "p\<lparr>labels := labels p @ [l]\<rparr>"
  let ?m = "length (true_labels p)"
  have n: "num_labels ?p = Suc (num_labels p)" by (simp add: num_labels_def)
  have le: "?m \<le> Suc (num_labels p)" using t by (simp add: trainable_def)
  have s: "fw_sized ?m w" if "(f, w) \<in> set (pweights p)" for f w
    using t that by (auto simp: trainable_def list_all_iff)
  have "pweights (update_num_labels ?p) = map (\<lambda>(f, w). (f, fw_resize w (Suc (num_labels p)))) (pweights p)"
    using update_num_labels_pweights[OF trainable_append[OF t, of l]] by (simp add: n)
  also have "\<dots> = map (\<lambda>(f, w). (f, w\<lparr>weights := weights w @ replicate (Suc (num_labels p) - ?m) 0,
                              totals := totals w @ replicate (Suc (num_labels p) - ?m) 0,
                              last_update := last_update w @ replicate (Suc (num_labels p) - ?m) 0\<rparr>))
        (pweights p)"
    by (rule map_cong) (auto simp: fw_resize_grow[OF s le])
  finally show ?thesis .
qed

subsection \<open>The scenario of the specification\<close>

lemma scenario_first:
  "update (Perceptron [''A'', ''B''] 1 None None) [(''f1'', 1)] 0 1 1 =
     (None, \<lparr>labels = [''A'', ''B''], init_num_labels = 2,
      pweights = [(''f1'', \<lparr>weights = [- 1, 1], totals = [0, 0], last_update = [1, 1], update_count = 2\<rparr>)],
      is_frozen = False, label_indices = None, min_update = 1, update_index = 1,
      true_labels = [False, True]\<rparr>)"
  by (simp add: update_def Perceptron_def update_num_labels_def num_labels_def
        update_feature_def default_weights_def FeatureWeights_zeros_def fw_update_def
        fw_update_totals_def)

lemma scenario_second:
  "update \<lparr>labels = [''A'', ''B''], init_num_labels = 2,
      pweights = [(''f1'', \<lparr>weights = [- 1, 1], totals = [0, 0], last_update = [1, 1], update_count = 2\<rparr>)],
      is_frozen = False, label_indices = None, min_update = 1, update_index = 1,
      true_labels = [False, True]\<rparr> [(''f1'', 1)] 1 1 1 =
     (None, \<lparr>labels = [''A'', ''B''], init_num_labels = 2,
      pweights = [(''f1'', \<lparr>weights = [- 1, 1], totals = [0, 1], last_update = [1, 2], update_count = 4\<rparr>)],
      is_frozen = False, label_indices = None, min_update = 1, update_index = 2,
      true_labels = [False, True]\<rparr>)"
  by (simp add: update_def update_num_labels_def num_labels_def
        update_feature_def default_weights_def fw_update_def
        fw_update_totals_def)

subsection \<open>Scoring\<close>

lemma update_num_labels_counts:
  "map_option update_count (map_of (pweights (update_num_labels p)) f) =
     map_option update_count (map_of (pweights p) f)"
  by (simp add: update_num_labels_def map_of_map fw_resize_def option.map_comp comp_def)

lemma score_result:
  "fst (score p fs) =
     (case score_features (if \<not> is_frozen p then update_num_labels p else p) fs
             (replicate (num_labels p) 0) of
        Inl e \<Rightarrow> Inl e
      | Inr scores \<Rightarrow>
          (case label_indices p of
             None \<Rightarrow> Inr (dict_of (enumerate 0 scores))
           | Some li \<Rightarrow>
               if length li < length scores then Inl IndexError
               else Inr (dict_of (zip li scores))))"
  by (simp add: score_def Let_def update_num_labels_fields split: sum.splits option.splits)

lemma warm_after_grow:
  "(case map_of (pweights (update_num_labels p)) f of
      None \<Rightarrow> True | Some w \<Rightarrow> min_update (update_num_labels p) \<le> update_count w) =
   (case map_of (pweights p) f of None \<Rightarrow> True | Some w \<Rightarrow> min_update p \<le> update_count w)"
  using update_num_labels_counts[of p f]
  by (auto simp: update_num_labels_fields split: option.splits)

lemma score_features_cold:
  assumes "\<not> is_frozen p"
  shows "score_features p
       (filter (\<lambda>(f, v). case map_of (pweights p) f of
                   None \<Rightarrow> True | Some w \<Rightarrow> min_update p \<le> update_count w) fs) scores
     = score_features p fs scores"
proof (induction fs arbitrary: scores)
  case Nil
  show ?case by simp
next
  case (Cons a fs)
  obtain f v where a: "a = (f, v)" by (cases a)
  show ?case unfolding a using assms Cons.IH
    by (cases "map_of (pweights p) f") (simp_all add: not_le)
qed

lemma score_features_frozen:
  assumes "is_frozen p"
  shows "score_features
       (p\<lparr>min_update := m, pweights := map (\<lambda>(f, w). (f, w\<lparr>update_count := g w\<rparr>)) (pweights p)\<rparr>)
       fs scores
     = score_features p fs scores"
proof (induction fs arbitrary: scores)
  case Nil
  show ?case by simp
next
  case (Cons a fs)
  obtain f v where a: "a = (f, v)" by (cases a)
  show ?case unfolding a using assms Cons.IH
    by (cases "map_of (pweights p) f") (simp_all add: map_of_map)
qed

lemma scenario_score:
  "score \<lparr>labels = [''A'', ''B''], init_num_labels = 2,
      pweights = [(''f1'', \<lparr>weights = [- 1, 1], totals = [0, 1], last_update = [1, 2], update_count = 4\<rparr>)],
      is_frozen = False, label_indices = None, min_update = 1, update_index = 2,
      true_labels = [False, True]\<rparr> [(''f1'', 1)] =
   (Inr [0 \<mapsto> - 1, 1 \<mapsto> 1],
    \<lparr>labels = [''A'', ''B''], init_num_labels = 2,
      pweights = [(''f1'', \<lparr>weights = [- 1, 1], totals = [0, 1], last_update = [1, 2], update_count = 4\<rparr>)],
      is_frozen = False, label_indices = None, min_update = 1, update_index = 2,
      true_labels = [False, True]\<rparr>)"
  by (simp add: score_def update_num_labels_def num_labels_def dict_of_def enumerate_eq_zip)

lemma scenario_finalize:
  "finalize \<lparr>labels = [''A'', ''B''], init_num_labels = 2,
      pweights = [(''f1'', \<lparr>weights = [- 1, 1], totals = [0, 1], last_update = [1, 2], update_count = 4\<rparr>)],
      is_frozen = False, label_indices = None, min_update = 1, update_index = 2,
      true_labels = [False, True]\<rparr> True =
   (Inr \<lparr>labels = [''B''], init_num_labels = 1,
      pweights = [(''f1'', \<lparr>weights = [1 / 2], totals = [], last_update = [], update_count = 0\<rparr>)],
      is_frozen = True, label_indices = Some [1], min_update = 0, update_index = 0,
      true_labels = []\<rparr>,
    \<lparr>labels = [''A'', ''B''], init_num_labels = 2,
      pweights = [(''f1'', \<lparr>weights = [- 1, 1], totals = [0, 1], last_update = [1, 2], update_count = 4\<rparr>)],
      is_frozen = False, label_indices = None, min_update = 1, update_index = 2,
      true_labels = [False, True]\<rparr>)"
  by (simp add: finalize_def update_num_labels_def num_labels_def kept_labels_def enumerate_eq_zip
      fw_finalize_def fw_update_totals_list_def FeatureWeights_given_def Perceptron_def)

subsection \<open>Persistence\<close>

text \<open>
  What a round trip through save and load keeps: the scores are those of the instance
  with no \<^verbatim>\<open>_label_indices\<close>.
\<close>

lemma load_save:
  "load q (save p) =
     (None, if is_frozen p
            then q\<lparr>labels := labels p, pweights := pweights p, is_frozen := True\<rparr>
            else q\<lparr>labels := labels p, pweights := pweights p, is_frozen := False,
                   min_update := min_update p, update_index := update_index p,
                   true_labels := true_labels p\<rparr>)"
  by (simp add: load_def save_def Let_def)

lemma score_features_cong:
  assumes "pweights q = pweights p" "is_frozen q = is_frozen p" "min_update q = min_update p \<or> is_frozen p"
  shows "score_features q fs scores = score_features p fs scores"
proof (induction fs arbitrary: scores)
  case Nil
  show ?case by simp
next
  case (Cons a fs)
  obtain f v where a: "a = (f, v)" by (cases a)
  show ?case unfolding a using assms Cons.IH
    by (cases "map_of (pweights p) f") auto
qed

lemma save_load_scores:
  "fst (score (snd (load (Perceptron [] mu None None) (save p))) fs) =
     fst (score (p\<lparr>label_indices := None\<rparr>) fs)"
proof (cases "is_frozen p")
  case True
  let ?q = "(Perceptron [] mu None None)\<lparr>labels := labels p, pweights := pweights p, is_frozen := True\<rparr>"
  have "score_features ?q fs scores = score_features (p\<lparr>label_indices := None\<rparr>) fs scores" for scores
    by (rule score_features_cong) (simp_all add: True)
  then show ?thesis using True
    by (simp add: load_save score_result num_labels_def Perceptron_def cong: sum.case_cong)
next
  case False
  let ?q = "(Perceptron [] mu None None)\<lparr>labels := labels p, pweights := pweights p, is_frozen := False,
                   min_update := min_update p, update_index := update_index p,
                   true_labels := true_labels p\<rparr>"
  have u: "update_num_labels ?q = (update_num_labels (p\<lparr>label_indices := None\<rparr>))\<lparr>init_num_labels := 0\<rparr>"
    using False by (cases p) (simp add: update_num_labels_def num_labels_def Perceptron_def)
  have "score_features (update_num_labels ?q) fs scores
      = score_features (update_num_labels (p\<lparr>label_indices := None\<rparr>)) fs scores" for scores
    unfolding u by (rule score_features_cong) simp_all
  then show ?thesis using False
    by (simp add: load_save score_result num_labels_def Perceptron_def cong: sum.case_cong)
qed

subsection \<open>Finalising\<close>







subsection \<open>The flags of the true labels and the labels a model keeps\<close>










lemma length_finalized_vector [simp]: "length (finalized_vector w idx ls average) = length ls"
  by (simp add: finalized_vector_def)


section \<open>The claims\<close>

text \<open>
  C9. On a frozen instance \<^verbatim>\<open>update\<close> and \<^verbatim>\<open>finalize\<close> raise AssertionError (the
  assertion is their first statement) and return the instance as it was; on an unfrozen
  instance neither of them raises AssertionError, whatever the arguments.
\<close>

theorem frozen_guard:
  "(is_frozen p \<longrightarrow>
      update p features pred true learning_rate = (Some AssertionError, p) \<and>
      finalize p average = (Inl AssertionError, p)) \<and>
   (\<not> is_frozen p \<longrightarrow>
      fst (update p features pred true learning_rate) \<noteq> Some AssertionError \<and>
      fst (finalize p average) \<noteq> Inl AssertionError)"
proof (cases "is_frozen p")
  case True
  then show ?thesis by (simp add: update_def finalize_def)
next
  case False
  have "fst (update p features pred true learning_rate) \<noteq> Some AssertionError"
    using update_error_unfrozen[OF False, of features pred true learning_rate AssertionError]
    by auto
  moreover have "fst (finalize p average) \<noteq> Inl AssertionError"
    using finalize_error_unfrozen[OF False, of average AssertionError] by auto
  ultimately show ?thesis using False by simp
qed

theorem frozen_guard_witness:
  "update (Perceptron [''B''] 1 (Some []) (Some [1])) [(''f1'', 1)] 0 0 1
     = (Some AssertionError, Perceptron [''B''] 1 (Some []) (Some [1])) \<and>
   finalize (Perceptron [''B''] 1 (Some []) (Some [1])) True
     = (Inl AssertionError, Perceptron [''B''] 1 (Some []) (Some [1])) \<and>
   fst (update (Perceptron [''A'', ''B''] 1 None None) [(''f1'', 1)] 0 1 1) \<noteq> Some AssertionError \<and>
   fst (finalize (Perceptron [''A'', ''B''] 1 None None) True) \<noteq> Inl AssertionError"
  using frozen_guard[of "Perceptron [''B''] 1 (Some []) (Some [1])" "[(''f1'', 1)]" 0 0 1 True]
    frozen_guard[of "Perceptron [''A'', ''B''] 1 None None" "[(''f1'', 1)]" 0 1 1 True]
  by (simp add: Perceptron_def)

text \<open>
  C10. \<^verbatim>\<open>finalize\<close> on an unfrozen instance none of whose flags \<^verbatim>\<open>_true_labels\<close> is set
  (the flags are set by \<^verbatim>\<open>update\<close> only, so this is every instance no update has marked
  a label of) returns no model: it raises ValueError, after the grow-check has run.
\<close>

theorem finalize_without_true_label:
  "\<not> is_frozen p \<Longrightarrow> True \<notin> set (true_labels p) \<Longrightarrow>
     finalize p average = (Inl ValueError, update_num_labels p)"
proof -
  assume a: "\<not> is_frozen p" "True \<notin> set (true_labels p)"
  from a(2) have "True \<notin> set (true_labels (update_num_labels p))"
    using true_labels_grow[of p] by auto
  then have "kept_labels (update_num_labels p) = []" by (rule kept_labels_empty)
  with a(1) show ?thesis by (simp add: finalize_def Let_def)
qed

theorem finalize_without_true_label_witness:
  "fst (finalize (Perceptron [''A'', ''B''] 1 None None) True) = Inl ValueError"
proof -
  have "\<not> is_frozen (Perceptron [''A'', ''B''] 1 None None)"
    and "True \<notin> set (true_labels (Perceptron [''A'', ''B''] 1 None None))"
    by (simp_all add: Perceptron_def)
  from finalize_without_true_label[OF this] show ?thesis by simp
qed

text \<open>
  C3. On an unfrozen instance of the shape of a run, with both label positions in range
  and a feature vector whose keys are distinct (a dict), \<^verbatim>\<open>update\<close> returns, the
  update counter is one more than before, and every feature with a non-zero value holds
  the result of exactly two \<^verbatim>\<open>FeatureWeights.update\<close> calls at the new counter, on the
  stored (or new zero) vector after the grow-check: the first adds
  \<open>learning_rate * value\<close> to the weight of the true label, the second subtracts it
  from the weight of the predicted label. A feature with no non-zero value is as the
  grow-check left it. In the scenario (fresh instance over two labels, one feature of
  value 1, pred 0, true 1, rate 1) the weights of the feature are \<open>[-1, 1]\<close>.
\<close>

theorem update_two_calls_per_feature:
  "(trainable p \<and> pred < num_labels p \<and> true < num_labels p \<and> distinct (map fst features) \<longrightarrow>
     (\<exists>p'. update p features pred true lr = (None, p') \<and>
      update_index p' = update_index p + 1 \<and>
      (\<forall>f v. (f, v) \<in> set features \<and> v \<noteq> 0 \<longrightarrow>
         (\<exists>w1 w2.
            fw_update (default_weights (update_num_labels p) f) true (lr * v) (update_index p + 1) = (None, w1) \<and>
            fw_update w1 pred (- lr * v) (update_index p + 1) = (None, w2) \<and>
            map_of (pweights p') f = Some w2 \<and>
            weights w1 = (weights (default_weights (update_num_labels p) f))
                           [true := weights (default_weights (update_num_labels p) f) ! true + lr * v] \<and>
            weights w2 = (weights w1)[pred := weights w1 ! pred - lr * v] \<and>
            update_count w2 = update_count (default_weights (update_num_labels p) f) + 2)) \<and>
      (\<forall>f. (\<forall>v. (f, v) \<in> set features \<longrightarrow> v = 0) \<longrightarrow>
         map_of (pweights p') f = map_of (pweights (update_num_labels p)) f))) \<and>
   map_option weights
     (map_of (pweights (snd (update (Perceptron [''A'', ''B''] 1 None None) [(''f1'', 1)] 0 1 1))) ''f1'')
     = Some [- 1, 1]"
proof -
  have "map_option weights
     (map_of (pweights (snd (update (Perceptron [''A'', ''B''] 1 None None) [(''f1'', 1)] 0 1 1))) ''f1'')
     = Some [- 1, 1]"
    by (simp add: update_def Perceptron_def update_num_labels_def num_labels_def update_feature_def
        default_weights_def FeatureWeights_zeros_def fw_update_def fw_update_totals_def)
  then show ?thesis using update_general[of p pred true features lr] by blast
qed

theorem update_two_calls_per_feature_witness:
  "fst (update (Perceptron [''A'', ''B''] 1 None None) [(''f1'', 1), (''f2'', 0)] 0 1 1) = None \<and>
   update_index (snd (update (Perceptron [''A'', ''B''] 1 None None) [(''f1'', 1), (''f2'', 0)] 0 1 1)) = 1 \<and>
   map_of (pweights (snd (update (Perceptron [''A'', ''B''] 1 None None) [(''f1'', 1), (''f2'', 0)] 0 1 1))) ''f2''
     = None"
proof -
  let ?p = "Perceptron [''A'', ''B''] 1 None None"
  have h: "trainable ?p \<and> 0 < num_labels ?p \<and> 1 < num_labels ?p \<and>
      distinct (map fst [(''f1'', 1::real), (''f2'', 0)])"
    by (simp add: trainable_def Perceptron_def num_labels_def)
  have z: "\<forall>v. (''f2'', v) \<in> set [(''f1'', 1::real), (''f2'', 0)] \<longrightarrow> v = 0" by simp
  have e: "map_of (pweights (update_num_labels ?p)) ''f2'' = None"
    by (simp add: Perceptron_def update_num_labels_def num_labels_def)
  from update_two_calls_per_feature[of ?p 0 1 "[(''f1'', 1), (''f2'', 0)]" 1] h
  obtain p' where p': "update ?p [(''f1'', 1), (''f2'', 0)] 0 1 1 = (None, p')"
    "update_index p' = update_index ?p + 1"
    "\<forall>f. (\<forall>v. (f, v) \<in> set [(''f1'', 1::real), (''f2'', 0)] \<longrightarrow> v = 0) \<longrightarrow>
         map_of (pweights p') f = map_of (pweights (update_num_labels ?p)) f"
    by blast
  from p'(3) z e have "map_of (pweights p') ''f2'' = None" by metis
  with p'(1,2) show ?thesis by (simp add: Perceptron_def)
qed

text \<open>
  C7. Every state of a run from a fresh unfrozen instance is trainable, and in a
  trainable state, after a label is appended, the grow-check (as \<^verbatim>\<open>score\<close> runs it, and
  \<^verbatim>\<open>update\<close> before its loop) leaves every stored feature with its three vectors
  extended by zeros: the entries at the positions that existed are the ones that were
  there, the new entries are zero, the update count is untouched, and the flags are
  extended by \<open>False\<close>.
\<close>

theorem growth_keeps_stored_weights:
  "trainable (run (Perceptron ls mu None None) cs) \<and>
   (trainable p \<longrightarrow>
      0 < Suc (num_labels p) - length (true_labels p) \<and>
      pweights (update_num_labels (p\<lparr>labels := labels p @ [l]\<rparr>)) =
        map (\<lambda>(f, w). (f, w\<lparr>weights := weights w @ replicate (Suc (num_labels p) - length (true_labels p)) 0,
                              totals := totals w @ replicate (Suc (num_labels p) - length (true_labels p)) 0,
                              last_update := last_update w @ replicate (Suc (num_labels p) - length (true_labels p)) 0\<rparr>))
          (pweights p) \<and>
      true_labels (update_num_labels (p\<lparr>labels := labels p @ [l]\<rparr>)) =
        true_labels p @ replicate (Suc (num_labels p) - length (true_labels p)) False \<and>
      snd (score (p\<lparr>labels := labels p @ [l]\<rparr>) features) = update_num_labels (p\<lparr>labels := labels p @ [l]\<rparr>))"
proof -
  have "0 < Suc (num_labels p) - length (true_labels p)" if "trainable p"
    using that by (simp add: trainable_def)
  moreover have "true_labels (update_num_labels (p\<lparr>labels := labels p @ [l]\<rparr>)) =
        true_labels p @ replicate (Suc (num_labels p) - length (true_labels p)) False" if "trainable p"
    using that by (simp add: trainable_def update_num_labels_def num_labels_def)
  moreover have "snd (score (p\<lparr>labels := labels p @ [l]\<rparr>) features)
      = update_num_labels (p\<lparr>labels := labels p @ [l]\<rparr>)" if "trainable p"
    using that by (simp add: score_state trainable_def)
  ultimately show ?thesis
    using trainable_run[of ls mu cs] grow_after_append[of p l] by blast
qed

theorem growth_keeps_stored_weights_witness:
  "pweights (update_num_labels
      ((run (Perceptron [''A'', ''B''] 1 None None) [Update [(''f1'', 1)] 0 1 1])
          \<lparr>labels := [''A'', ''B'', ''C'']\<rparr>)) =
     [(''f1'', \<lparr>weights = [- 1, 1, 0], totals = [0, 0, 0], last_update = [1, 1, 0], update_count = 2\<rparr>)]"
proof -
  let ?p = "run (Perceptron [''A'', ''B''] 1 None None) [Update [(''f1'', 1)] 0 1 1]"
  have p: "?p = \<lparr>labels = [''A'', ''B''], init_num_labels = 2,
      pweights = [(''f1'', \<lparr>weights = [- 1, 1], totals = [0, 0], last_update = [1, 1], update_count = 2\<rparr>)],
      is_frozen = False, label_indices = None, min_update = 1, update_index = 1,
      true_labels = [False, True]\<rparr>"
    by (simp add: run_def update_def Perceptron_def update_num_labels_def num_labels_def
        update_feature_def default_weights_def FeatureWeights_zeros_def fw_update_def
        fw_update_totals_def)
  from growth_keeps_stored_weights[of "[''A'', ''B'']" 1 "[Update [(''f1'', 1)] 0 1 1]" ?p "''C''" "[]"]
  have "pweights (update_num_labels (?p\<lparr>labels := labels ?p @ [''C'']\<rparr>)) =
        map (\<lambda>(f, w). (f, w\<lparr>weights := weights w @ replicate (Suc (num_labels ?p) - length (true_labels ?p)) 0,
                              totals := totals w @ replicate (Suc (num_labels ?p) - length (true_labels ?p)) 0,
                              last_update := last_update w @ replicate (Suc (num_labels ?p) - length (true_labels ?p)) 0\<rparr>))
          (pweights ?p)"
    by blast
  then show ?thesis unfolding p by (simp add: num_labels_def)
qed

text \<open>
  C2. The claim's counts fail on the code. \<^verbatim>\<open>FeatureWeights.update\<close> adds one to
  \<^verbatim>\<open>update_count\<close> on each call and \<^verbatim>\<open>Perceptron.update\<close> calls it twice per feature
  (for the true and for the predicted label), so in the scenario the count of \<^verbatim>\<open>f1\<close>
  is 2 after the first call, where the claim has 1, and 4 after the second, where the
  claim has 2. With \<^verbatim>\<open>min_update = 2\<close> a feature that occurred in one update already
  passes the threshold of \<^verbatim>\<open>score\<close>.
\<close>

theorem update_counts_twice_per_call:
  "map_option update_count (map_of (pweights
      (run (Perceptron [''A'', ''B''] 1 None None) [Update [(''f1'', 1)] 0 1 1])) ''f1'') = Some 2 \<and>
   map_option update_count (map_of (pweights
      (run (Perceptron [''A'', ''B''] 1 None None)
         [Update [(''f1'', 1)] 0 1 1, Update [(''f1'', 1)] 1 1 1])) ''f1'') = Some 4 \<and>
   fst (score (run (Perceptron [''A'', ''B''] 2 None None) [Update [(''f1'', 1)] 0 1 1])
          [(''f1'', 1)]) = Inr [0 \<mapsto> - 1, 1 \<mapsto> 1]"
proof -
  have a: "map_option update_count (map_of (pweights
      (run (Perceptron [''A'', ''B''] 1 None None) [Update [(''f1'', 1)] 0 1 1])) ''f1'') = Some 2"
    by (simp only: run_def foldl.simps step.simps scenario_first snd_conv) simp
  have b: "map_option update_count (map_of (pweights
      (run (Perceptron [''A'', ''B''] 1 None None)
         [Update [(''f1'', 1)] 0 1 1, Update [(''f1'', 1)] 1 1 1])) ''f1'') = Some 4"
    by (simp only: run_def foldl.simps step.simps scenario_first scenario_second snd_conv) simp
  have "run (Perceptron [''A'', ''B''] 2 None None) [Update [(''f1'', 1)] 0 1 1] =
      \<lparr>labels = [''A'', ''B''], init_num_labels = 2,
       pweights = [(''f1'', \<lparr>weights = [- 1, 1], totals = [0, 0], last_update = [1, 1], update_count = 2\<rparr>)],
       is_frozen = False, label_indices = None, min_update = 2, update_index = 1,
       true_labels = [False, True]\<rparr>"
    by (simp add: run_def update_def Perceptron_def update_num_labels_def num_labels_def
        update_feature_def default_weights_def FeatureWeights_zeros_def fw_update_def
        fw_update_totals_def)
  then have c: "fst (score (run (Perceptron [''A'', ''B''] 2 None None) [Update [(''f1'', 1)] 0 1 1])
          [(''f1'', 1)]) = Inr [0 \<mapsto> - 1, 1 \<mapsto> 1]"
    by (simp add: score_def update_num_labels_def num_labels_def dict_of_def enumerate_eq_zip)
  from a b c show ?thesis by simp
qed

text \<open>
  C8. On an unfrozen instance the scores are those of the feature vector without the
  features whose stored update count is below \<^verbatim>\<open>min_update\<close>: such a feature
  contributes nothing. On a frozen instance the scores depend neither on
  \<^verbatim>\<open>min_update\<close> nor on any update count: nothing is filtered. In the scenario, after
  the two updates, the scores of \<open>{f1: 1}\<close> are \<open>{0: -1, 1: 1}\<close>.
\<close>

theorem score_min_update_filter:
  "(\<not> is_frozen p \<longrightarrow>
      fst (score p features) =
      fst (score p (filter (\<lambda>(f, v). case map_of (pweights p) f of
                              None \<Rightarrow> True | Some w \<Rightarrow> min_update p \<le> update_count w) features))) \<and>
   (is_frozen p \<longrightarrow>
      fst (score (p\<lparr>min_update := m,
                    pweights := map (\<lambda>(f, w). (f, w\<lparr>update_count := g w\<rparr>)) (pweights p)\<rparr>) features) =
      fst (score p features)) \<and>
   fst (score (run (Perceptron [''A'', ''B''] 1 None None)
                 [Update [(''f1'', 1)] 0 1 1, Update [(''f1'', 1)] 1 1 1]) [(''f1'', 1)])
     = Inr [0 \<mapsto> - 1, 1 \<mapsto> 1]"
proof -
  let ?keep = "\<lambda>q. (\<lambda>(f, v). case map_of (pweights q) f of
                              None \<Rightarrow> True | Some w \<Rightarrow> min_update q \<le> update_count w)"
  have a: "fst (score p features) = fst (score p (filter (?keep p) features))" if u: "\<not> is_frozen p"
  proof -
    let ?q = "update_num_labels p"
    have k: "?keep ?q = ?keep p"
      by (simp add: fun_eq_iff warm_after_grow)
    have nq: "\<not> is_frozen ?q" using u by (simp add: update_num_labels_fields)
    have "score_features ?q (filter (?keep p) features) scores
        = score_features ?q features scores" for scores
      using score_features_cold[OF nq, of features scores] unfolding k .
    with u show ?thesis by (simp add: score_result)
  qed
  have b: "fst (score (p\<lparr>min_update := m,
                    pweights := map (\<lambda>(f, w). (f, w\<lparr>update_count := g w\<rparr>)) (pweights p)\<rparr>) features) =
      fst (score p features)" if "is_frozen p"
    using that by (simp add: score_result num_labels_def score_features_frozen cong: sum.case_cong)
  have c: "fst (score (run (Perceptron [''A'', ''B''] 1 None None)
                 [Update [(''f1'', 1)] 0 1 1, Update [(''f1'', 1)] 1 1 1]) [(''f1'', 1)])
     = Inr [0 \<mapsto> - 1, 1 \<mapsto> 1]"
    by (simp only: run_def foldl.simps step.simps scenario_first scenario_second scenario_score snd_conv fst_conv)
  from a b c show ?thesis by blast
qed

theorem score_min_update_filter_witness:
  "fst (score \<lparr>labels = [''A'', ''B''], init_num_labels = 2,
      pweights = [(''f1'', \<lparr>weights = [- 1, 1], totals = [0, 0], last_update = [1, 1], update_count = 2\<rparr>)],
      is_frozen = False, label_indices = None, min_update = 3, update_index = 1,
      true_labels = [False, True]\<rparr> [(''f1'', 1)]) = Inr [0 \<mapsto> 0, 1 \<mapsto> 0] \<and>
   fst (score \<lparr>labels = [''B''], init_num_labels = 1,
      pweights = [(''f1'', \<lparr>weights = [1 / 2], totals = [], last_update = [], update_count = 0\<rparr>)],
      is_frozen = True, label_indices = Some [1], min_update = 3, update_index = 0,
      true_labels = []\<rparr> [(''f1'', 1)]) = Inr [1 \<mapsto> 1 / 2]"
proof -
  let ?pu = "\<lparr>labels = [''A'', ''B''], init_num_labels = 2,
      pweights = [(''f1'', \<lparr>weights = [- 1, 1], totals = [0, 0], last_update = [1, 1], update_count = 2\<rparr>)],
      is_frozen = False, label_indices = None, min_update = 3, update_index = 1,
      true_labels = [False, True]\<rparr>"
  let ?pf = "\<lparr>labels = [''B''], init_num_labels = 1,
      pweights = [(''f1'', \<lparr>weights = [1 / 2], totals = [], last_update = [], update_count = 7\<rparr>)],
      is_frozen = True, label_indices = Some [1], min_update = 0, update_index = 0,
      true_labels = []\<rparr>"
  have "fst (score ?pu [(''f1'', 1)]) =
      fst (score ?pu (filter (\<lambda>(f, v). case map_of (pweights ?pu) f of
                              None \<Rightarrow> True | Some w \<Rightarrow> min_update ?pu \<le> update_count w) [(''f1'', 1)]))"
    using score_min_update_filter[of ?pu "[(''f1'', 1)]"] by simp
  also have "\<dots> = Inr [0 \<mapsto> 0, 1 \<mapsto> 0]"
    by (simp add: score_def update_num_labels_def num_labels_def dict_of_def enumerate_eq_zip)
  finally have a: "fst (score ?pu [(''f1'', 1)]) = Inr [0 \<mapsto> 0, 1 \<mapsto> 0]" .
  have "fst (score (?pf\<lparr>min_update := 3,
                    pweights := map (\<lambda>(f, w). (f, w\<lparr>update_count := 0\<rparr>)) (pweights ?pf)\<rparr>) [(''f1'', 1)]) =
      fst (score ?pf [(''f1'', 1)])"
    using score_min_update_filter[where p = ?pf and m = 3 and g = "\<lambda>w. 0" and features = "[(''f1'', 1)]"] by simp
  also have "\<dots> = Inr [1 \<mapsto> 1 / 2]"
    by (simp add: score_def num_labels_def dict_of_def)
  finally have b: "fst (score (?pf\<lparr>min_update := 3,
                    pweights := map (\<lambda>(f, w). (f, w\<lparr>update_count := 0\<rparr>)) (pweights ?pf)\<rparr>) [(''f1'', 1)])
       = Inr [1 \<mapsto> 1 / 2]" .
  from a b show ?thesis by simp
qed

text \<open>
  C4. The claim (scores are the same after save and load into a fresh instance) fails
  on the frozen model of the scenario: \<^verbatim>\<open>finalize\<close> keeps label 1 only and the model
  scores under the key 1; \<^verbatim>\<open>save\<close> does not write \<^verbatim>\<open>_label_indices\<close>, so the loaded
  model has none and scores under the key 0.
\<close>

theorem save_load_loses_label_indices:
  "fst (finalize (run (Perceptron [''A'', ''B''] 1 None None)
                   [Update [(''f1'', 1)] 0 1 1, Update [(''f1'', 1)] 1 1 1]) True) =
     Inr \<lparr>labels = [''B''], init_num_labels = 1,
      pweights = [(''f1'', \<lparr>weights = [1 / 2], totals = [], last_update = [], update_count = 0\<rparr>)],
      is_frozen = True, label_indices = Some [1], min_update = 0, update_index = 0,
      true_labels = []\<rparr> \<and>
   fst (score \<lparr>labels = [''B''], init_num_labels = 1,
      pweights = [(''f1'', \<lparr>weights = [1 / 2], totals = [], last_update = [], update_count = 0\<rparr>)],
      is_frozen = True, label_indices = Some [1], min_update = 0, update_index = 0,
      true_labels = []\<rparr> [(''f1'', 1)]) = Inr [1 \<mapsto> 1 / 2] \<and>
   fst (score (snd (load (Perceptron [] 1 None None)
      (save \<lparr>labels = [''B''], init_num_labels = 1,
      pweights = [(''f1'', \<lparr>weights = [1 / 2], totals = [], last_update = [], update_count = 0\<rparr>)],
      is_frozen = True, label_indices = Some [1], min_update = 0, update_index = 0,
      true_labels = []\<rparr>))) [(''f1'', 1)]) = Inr [0 \<mapsto> 1 / 2]"
proof -
  have a: "fst (finalize (run (Perceptron [''A'', ''B''] 1 None None)
                   [Update [(''f1'', 1)] 0 1 1, Update [(''f1'', 1)] 1 1 1]) True) =
     Inr \<lparr>labels = [''B''], init_num_labels = 1,
      pweights = [(''f1'', \<lparr>weights = [1 / 2], totals = [], last_update = [], update_count = 0\<rparr>)],
      is_frozen = True, label_indices = Some [1], min_update = 0, update_index = 0,
      true_labels = []\<rparr>"
    by (simp only: run_def foldl.simps step.simps scenario_first scenario_second scenario_finalize
        snd_conv fst_conv)
  have b: "fst (score \<lparr>labels = [''B''], init_num_labels = 1,
      pweights = [(''f1'', \<lparr>weights = [1 / 2], totals = [], last_update = [], update_count = 0\<rparr>)],
      is_frozen = True, label_indices = Some [1], min_update = 0, update_index = 0,
      true_labels = []\<rparr> [(''f1'', 1)]) = Inr [1 \<mapsto> 1 / 2]"
    by (simp add: score_def num_labels_def dict_of_def)
  have c: "fst (score (snd (load (Perceptron [] 1 None None)
      (save \<lparr>labels = [''B''], init_num_labels = 1,
      pweights = [(''f1'', \<lparr>weights = [1 / 2], totals = [], last_update = [], update_count = 0\<rparr>)],
      is_frozen = True, label_indices = Some [1], min_update = 0, update_index = 0,
      true_labels = []\<rparr>))) [(''f1'', 1)]) = Inr [0 \<mapsto> 1 / 2]"
    by (simp add: save_def load_def Perceptron_def score_def num_labels_def dict_of_def enumerate_eq_zip)
  from a b c show ?thesis by simp
qed





end
